theory Spec2Isabelle
  imports Complex_Main
begin

section \<open>Data model of the transcription worker\<close>

text \<open>
  The model follows \<^verbatim>\<open>worker/src/index.ts\<close>. JavaScript numbers are idealised as
  \<^typ>\<open>real\<close>; the one non-finite value the code can produce (\<^verbatim>\<open>Math.max()\<close> of
  no arguments) is kept as a value of its own. Instants (\<^verbatim>\<open>Date.now()\<close>, and the ISO
  text of \<^verbatim>\<open>new Date().toISOString()\<close>, which orders as the instant does) are
  milliseconds since the epoch as \<^typ>\<open>int\<close>. The D1 database and the R2 bucket are
  taken to answer every statement (no storage failure is modelled).
\<close>

datatype js_number = Num real | NegInfinity

datatype job_status = Uploaded | Processing | Completed | Error | Retry

record segment =
  seg_start :: real
  seg_end :: real
  seg_text :: string
  speaker :: "string option"

text \<open>A timestamp as it can arrive in JSON or in a header: a number or a string.\<close>

datatype timestamp_value = TsNumber int | TsString string

text \<open>\<^verbatim>\<open>SaladTranscriptionResponse\<close>, with the two optional timestamp fields the webhook
  route reads from the parsed body. The field \<^verbatim>\<open>status\<close> is \<open>salad_status\<close> here and
  \<^verbatim>\<open>created_at\<close> is \<open>payload_created_at\<close>, apart from the job's fields.\<close>

record salad_response =
  job_id :: string
  salad_status :: string
  transcript :: "string option"
  segments :: "segment list option"
  summary :: "string option"
  sentiment :: "string option"
  translation :: "string option"
  captions :: "string option"
  processing_time :: "real option"
  timestamp :: "timestamp_value option"
  payload_created_at :: "timestamp_value option"

text \<open>The object \<^verbatim>\<open>transcriptionData\<close> built on completion; the column
  \<^verbatim>\<open>transcription_data\<close> holds its JSON text, kept here as the value itself.\<close>

record transcription_data =
  td_text :: string
  td_segments :: "segment list"
  td_summary :: "string option"
  td_sentiment :: "string option"
  td_translation :: "string option"
  td_captions :: "string option"
  processingTime :: "real option"
  confidence :: real
  duration :: js_number
  metadata_saladJobId :: string
  metadata_language :: string
  metadata_processingTime :: real

text \<open>A row of \<^verbatim>\<open>transcription_jobs\<close> (\<^verbatim>\<open>TranscriptionJob\<close>); \<open>jobId\<close> is the column
  \<^verbatim>\<open>id\<close>.\<close>

record transcription_job =
  jobId :: string
  filename :: string
  fileSize :: nat
  fileType :: string
  saladJobId :: "string option"
  status :: job_status
  transcriptionData :: "transcription_data option"
  errorMessage :: "string option"
  retryCount :: nat
  lastRetryAt :: "int option"
  createdAt :: int
  completedAt :: "int option"
  processingTimeMs :: real
  estimatedCost :: js_number

text \<open>The body posted to the Airtable webhook by \<^verbatim>\<open>sendToAirtable\<close>.\<close>

record airtable_payload =
  at_jobId :: string
  at_filename :: string
  at_fileSize :: nat
  at_fileType :: string
  at_status :: string
  at_transcriptionText :: "string option"
  at_summary :: "string option"
  at_sentiment :: "string option"
  at_translation :: "string option"
  at_captions :: "string option"
  at_wordCount :: nat
  at_saladJobId :: string
  at_processingTime :: real
  at_createdAt :: int
  at_completedAt :: int
  at_segments :: "segment list"
  at_eventType :: string

text \<open>What \<^verbatim>\<open>backupTranscriptToR2\<close> puts in the bucket: the instant that fixes the dated
  path, the job id, and the object (the SRT text is kept as the segments it renders).\<close>

datatype r2_object =
    TranscriptJson transcription_data
  | TranscriptTxt string
  | TranscriptSrt "segment list"

text \<open>The world the worker acts on: the job table in table order, the objects put in R2,
  the bodies posted to Airtable, and the timers set by \<^verbatim>\<open>setTimeout\<close>
  (delay, job id, file key).\<close>

record world =
  db :: "transcription_job list"
  r2 :: "(int \<times> string \<times> r2_object) list"
  airtable :: "airtable_payload list"
  timers :: "(real \<times> string \<times> string) list"

section \<open>Database statements\<close>

text \<open>\<^verbatim>\<open>UPDATE transcription_jobs SET ... WHERE id = ?\<close>: every row with that id is
  rewritten, whatever its current status.\<close>

definition update_where_id ::
  "string \<Rightarrow> (transcription_job \<Rightarrow> transcription_job) \<Rightarrow> transcription_job list \<Rightarrow> transcription_job list" where
  "update_where_id j f rows = map (\<lambda>r. if jobId r = j then f r else r) rows"

text \<open>\<^verbatim>\<open>SELECT * FROM transcription_jobs WHERE id = ?\<close> with \<^verbatim>\<open>.first()\<close>.\<close>

definition select_by_id :: "string \<Rightarrow> transcription_job list \<Rightarrow> transcription_job option" where
  "select_by_id j rows = find (\<lambda>r. jobId r = j) rows"

text \<open>\<^verbatim>\<open>SELECT id FROM transcription_jobs WHERE salad_job_id = ?\<close> with \<^verbatim>\<open>.first()\<close>;
  a NULL column matches nothing.\<close>

definition select_by_salad_job_id :: "string \<Rightarrow> transcription_job list \<Rightarrow> transcription_job option" where
  "select_by_salad_job_id s rows = find (\<lambda>r. saladJobId r = Some s) rows"

section \<open>Reconciliation: updateJobFromSalad\<close>

definition COST_PER_MINUTE :: real where
  "COST_PER_MINUTE = 4 / 1000"

text \<open>\<^verbatim>\<open>Math.round(x)\<close> is \<open>\<lfloor>x + 1/2\<rfloor>\<close>. The cost below rounds the exact product; the
  code rounds the product of doubles, which can fall on the other side of a half (36.25
  minutes give 0.14 in the code and 0.15 here).\<close>

definition math_round :: "real \<Rightarrow> int" where
  "math_round x = \<lfloor>x + 1 / 2\<rfloor>"

fun estimateCost :: "js_number \<Rightarrow> js_number" where
  "estimateCost (Num durationMinutes) =
     Num (real_of_int (math_round (durationMinutes * COST_PER_MINUTE * 100)) / 100)"
| "estimateCost NegInfinity = NegInfinity"

text \<open>\<^verbatim>\<open>Math.max(...segments.map(s => s.end))\<close>; of an empty array it is \<^verbatim>\<open>-Infinity\<close>.\<close>

fun max_end :: "segment list \<Rightarrow> js_number" where
  "max_end [] = NegInfinity"
| "max_end (s # ss) =
     (case max_end ss of NegInfinity \<Rightarrow> Num (seg_end s) | Num m \<Rightarrow> Num (max (seg_end s) m))"

fun js_divide :: "js_number \<Rightarrow> real \<Rightarrow> js_number" where
  "js_divide (Num x) d = Num (x / d)"
| "js_divide NegInfinity d = NegInfinity"

text \<open>Truthiness of an optional string: \<^verbatim>\<open>undefined\<close> and \<^verbatim>\<open>''\<close> are falsy.\<close>

fun truthy_string :: "string option \<Rightarrow> bool" where
  "truthy_string None = False"
| "truthy_string (Some s) = (s \<noteq> [])"

text \<open>\<^verbatim>\<open>x || 0\<close> on an optional number.\<close>

fun or_zero :: "real option \<Rightarrow> real" where
  "or_zero None = 0"
| "or_zero (Some x) = x"

definition make_transcription_data :: "salad_response \<Rightarrow> transcription_data" where
  "make_transcription_data saladData =
     \<lparr> td_text = (case transcript saladData of None \<Rightarrow> [] | Some t \<Rightarrow> t),
       td_segments = (case segments saladData of None \<Rightarrow> [] | Some segs \<Rightarrow> segs),
       td_summary = summary saladData,
       td_sentiment = sentiment saladData,
       td_translation = translation saladData,
       td_captions = captions saladData,
       processingTime = processing_time saladData,
       confidence = 95 / 100,
       duration = (case segments saladData of None \<Rightarrow> Num 0 | Some segs \<Rightarrow> max_end segs),
       metadata_saladJobId = job_id saladData,
       metadata_language = ''en'',
       metadata_processingTime = or_zero (processing_time saladData) \<rparr>"

text \<open>The three puts of \<^verbatim>\<open>backupTranscriptToR2\<close>; the SRT file is written when there are
  captions or at least one segment.\<close>

definition backupTranscriptToR2 ::
  "int \<Rightarrow> string \<Rightarrow> transcription_data \<Rightarrow> salad_response \<Rightarrow> world \<Rightarrow> world" where
  "backupTranscriptToR2 now j td saladData w =
     w\<lparr> r2 := r2 w @
         [(now, j, TranscriptJson td), (now, j, TranscriptTxt (td_text td))] @
         (if truthy_string (captions saladData) \<or> td_segments td \<noteq> []
          then [(now, j, TranscriptSrt (td_segments td))] else []) \<rparr>"

text \<open>\<^verbatim>\<open>transcript.split(' ').length\<close>: one more than the number of spaces.\<close>

definition word_count :: "string \<Rightarrow> nat" where
  "word_count s = Suc (length (filter (\<lambda>c. c = CHR '' '') s))"

text \<open>\<^verbatim>\<open>sendToAirtable\<close>: reads the job row and posts one body; with no row it throws
  before the post and the error is swallowed. The answer of Airtable changes nothing.\<close>

definition sendToAirtable :: "int \<Rightarrow> string \<Rightarrow> salad_response \<Rightarrow> world \<Rightarrow> world" where
  "sendToAirtable now j saladData w =
     (case select_by_id j (db w) of
        None \<Rightarrow> w
      | Some jobResult \<Rightarrow>
          w\<lparr> airtable := airtable w @
            [\<lparr> at_jobId = j,
               at_filename = filename jobResult,
               at_fileSize = fileSize jobResult,
               at_fileType = fileType jobResult,
               at_status = ''completed'',
               at_transcriptionText = transcript saladData,
               at_summary = summary saladData,
               at_sentiment = sentiment saladData,
               at_translation = translation saladData,
               at_captions = captions saladData,
               at_wordCount = (case transcript saladData of None \<Rightarrow> 0 | Some t \<Rightarrow> word_count t),
               at_saladJobId = job_id saladData,
               at_processingTime = or_zero (processing_time saladData),
               at_createdAt = createdAt jobResult,
               at_completedAt = now,
               at_segments = (case segments saladData of None \<Rightarrow> [] | Some segs \<Rightarrow> segs),
               at_eventType = ''job_completed'' \<rparr>] \<rparr>)"

text \<open>The row written by the completion branch.\<close>

definition complete_row ::
  "int \<Rightarrow> salad_response \<Rightarrow> transcription_job \<Rightarrow> transcription_job" where
  "complete_row now saladData r =
     r\<lparr> status := Completed,
        transcriptionData := Some (make_transcription_data saladData),
        completedAt := Some now,
        estimatedCost := estimateCost (js_divide (duration (make_transcription_data saladData)) 60),
        processingTimeMs := or_zero (processing_time saladData) * 1000 \<rparr>"

definition updateJobFromSalad :: "int \<Rightarrow> string \<Rightarrow> salad_response \<Rightarrow> world \<Rightarrow> world" where
  "updateJobFromSalad now j saladData w =
     (if salad_status saladData = ''completed'' \<and> truthy_string (transcript saladData) then
        sendToAirtable now j saladData
          (backupTranscriptToR2 now j (make_transcription_data saladData) saladData
             (w\<lparr> db := update_where_id j (complete_row now saladData) (db w) \<rparr>))
      else if salad_status saladData = ''failed'' then
        w\<lparr> db := update_where_id j
               (\<lambda>r. r\<lparr> status := Error, errorMessage := Some ''Transcription failed'' \<rparr>) (db w) \<rparr>
      else w)"

section \<open>Responses, the webhook route and its replay check\<close>

datatype sweep_action = action_completed | action_failed | action_still_processing | action_no_salad_status

text \<open>What a route answers: \<^verbatim>\<open>{ success: true }\<close>, an error body with its HTTP status,
  the job as JSON, or the sweep's list of results.\<close>

datatype response =
    Success
  | ErrorJson string nat
  | JobJson transcription_job
  | Checked "(string \<times> sweep_action) list"

text \<open>Truthiness of an optional timestamp: \<^verbatim>\<open>undefined\<close>, \<^verbatim>\<open>0\<close> and \<^verbatim>\<open>''\<close> are falsy.\<close>

fun truthy_ts :: "timestamp_value option \<Rightarrow> bool" where
  "truthy_ts None = False"
| "truthy_ts (Some (TsNumber n)) = (n \<noteq> 0)"
| "truthy_ts (Some (TsString s)) = (s \<noteq> [])"

text \<open>\<^verbatim>\<open>a || b\<close>.\<close>

definition js_or :: "timestamp_value option \<Rightarrow> timestamp_value option \<Rightarrow> timestamp_value option" where
  "js_or a b = (if truthy_ts a then a else b)"

text \<open>\<^verbatim>\<open>payload.timestamp || payload.created_at || c.req.header('x-webhook-timestamp')\<close>.\<close>

definition webhookTimestamp :: "salad_response \<Rightarrow> string option \<Rightarrow> timestamp_value option" where
  "webhookTimestamp payload header =
     js_or (js_or (timestamp payload) (payload_created_at payload)) (map_option TsString header)"

text \<open>\<^verbatim>\<open>new Date(v).getTime()\<close>: a number is its own time value when within the range of
  dates and \<^verbatim>\<open>NaN\<close> (here \<open>None\<close>) beyond it; a string goes through the platform's date
  parser, a parameter of the model (\<open>None\<close> for an invalid date).\<close>

fun date_getTime :: "(string \<Rightarrow> int option) \<Rightarrow> timestamp_value \<Rightarrow> int option" where
  "date_getTime parse (TsNumber n) = (if \<bar>n\<bar> \<le> 8640000000000000 then Some n else None)"
| "date_getTime parse (TsString s) = parse s"

text \<open>The guard of the replay check: a truthy timestamp whose distance from now is more
  than \<^verbatim>\<open>maxAge = 300000\<close>; a comparison with \<^verbatim>\<open>NaN\<close> is false.\<close>

definition webhook_too_old ::
  "(string \<Rightarrow> int option) \<Rightarrow> int \<Rightarrow> salad_response \<Rightarrow> string option \<Rightarrow> bool" where
  "webhook_too_old parse now payload header =
     (case webhookTimestamp payload header of
        None \<Rightarrow> False
      | Some v \<Rightarrow>
          truthy_ts (Some v) \<and>
          (case date_getTime parse v of None \<Rightarrow> False | Some webhookTime \<Rightarrow> \<bar>now - webhookTime\<bar> > 300000))"

text \<open>\<^verbatim>\<open>app.post('/webhook/salad')\<close>; a body that \<^verbatim>\<open>JSON.parse\<close> refuses is \<open>None\<close>.\<close>

definition webhook_salad ::
  "(string \<Rightarrow> int option) \<Rightarrow> int \<Rightarrow> string option \<Rightarrow> salad_response option \<Rightarrow> world \<Rightarrow> response \<times> world" where
  "webhook_salad parse now header body w =
     (case body of
        None \<Rightarrow> (ErrorJson ''Failed to process webhook'' 500, w)
      | Some payload \<Rightarrow>
          if webhook_too_old parse now payload header then (ErrorJson ''Webhook expired'' 401, w)
          else (case select_by_salad_job_id (job_id payload) (db w) of
                  None \<Rightarrow> (ErrorJson ''Job not found'' 404, w)
                | Some result \<Rightarrow> (Success, updateJobFromSalad now (jobId result) payload w)))"

section \<open>The status route (poll) and the sweep over stuck jobs\<close>

text \<open>\<^verbatim>\<open>app.get('/job/:jobId/status')\<close> for an authenticated caller. \<open>checkSaladStatus\<close>
  is what Salad answers for an external job id at the time of the call (\<open>None\<close> when
  the request fails).\<close>

definition job_status_route ::
  "(string \<Rightarrow> salad_response option) \<Rightarrow> int \<Rightarrow> string \<Rightarrow> world \<Rightarrow> response \<times> world" where
  "job_status_route checkSaladStatus now j w =
     (case select_by_id j (db w) of
        None \<Rightarrow> (ErrorJson ''Job not found'' 404, w)
      | Some job \<Rightarrow>
          (case saladJobId job of
             Some sid \<Rightarrow>
               if status job = Processing \<and> sid \<noteq> [] then
                 (case checkSaladStatus sid of
                    Some saladStatus \<Rightarrow>
                      if salad_status saladStatus \<noteq> ''processing'' then
                        (let w' = updateJobFromSalad now j saladStatus w in
                         case select_by_id j (db w') of
                           Some updatedResult \<Rightarrow>
                             (JobJson (job\<lparr> status := status updatedResult,
                                            transcriptionData := transcriptionData updatedResult,
                                            completedAt := completedAt updatedResult \<rparr>), w')
                         | None \<Rightarrow> (JobJson job, w'))
                      else (JobJson job, w)
                  | None \<Rightarrow> (JobJson job, w))
               else (JobJson job, w)
           | None \<Rightarrow> (JobJson job, w)))"

text \<open>The id interpolated in the status URL: a NULL column reads \<^verbatim>\<open>null\<close>.\<close>

fun salad_id_text :: "string option \<Rightarrow> string" where
  "salad_id_text None = ''null''"
| "salad_id_text (Some s) = s"

text \<open>The body of the loop of \<^verbatim>\<open>app.post('/debug/fix-stuck-jobs')\<close> for one stuck row.\<close>

definition fix_stuck_job ::
  "(string \<Rightarrow> salad_response option) \<Rightarrow> int \<Rightarrow> transcription_job \<Rightarrow> world \<Rightarrow> sweep_action \<times> world" where
  "fix_stuck_job checkSaladStatus now job w =
     (case checkSaladStatus (salad_id_text (saladJobId job)) of
        Some saladStatus \<Rightarrow>
          if salad_status saladStatus = ''completed'' \<or> salad_status saladStatus = ''succeeded'' then
            (action_completed, updateJobFromSalad now (jobId job) saladStatus w)
          else if salad_status saladStatus = ''failed'' then
            (action_failed,
             w\<lparr> db := update_where_id (jobId job)
                    (\<lambda>r. r\<lparr> status := Error, errorMessage := Some ''Job failed at Salad'' \<rparr>) (db w) \<rparr>)
          else (action_still_processing, w)
      | None \<Rightarrow> (action_no_salad_status, w))"

fun fix_stuck_loop ::
  "(string \<Rightarrow> salad_response option) \<Rightarrow> int \<Rightarrow> transcription_job list \<Rightarrow> world \<Rightarrow>
   (string \<times> sweep_action) list \<times> world" where
  "fix_stuck_loop checkSaladStatus now [] w = ([], w)"
| "fix_stuck_loop checkSaladStatus now (job # rest) w =
     (case fix_stuck_job checkSaladStatus now job w of
        (a, w') \<Rightarrow>
          (case fix_stuck_loop checkSaladStatus now rest w' of
             (results, w'') \<Rightarrow> ((jobId job, a) # results, w'')))"

text \<open>The rows the sweep selects: \<^verbatim>\<open>status = 'processing' AND created_at < cutoff\<close>, newest
  first, with the cutoff ten minutes before now; rows of the same age stay in table
  order (the sort is stable). The ISO texts the code compares order as their instants do
  for the years 0000 to 9999.\<close>

definition stuckJobs :: "int \<Rightarrow> transcription_job list \<Rightarrow> transcription_job list" where
  "stuckJobs now rows =
     sort_key (\<lambda>r. - createdAt r)
       (filter (\<lambda>r. status r = Processing \<and> createdAt r < now - 10 * 60 * 1000) rows)"

definition fix_stuck_jobs ::
  "(string \<Rightarrow> salad_response option) \<Rightarrow> int \<Rightarrow> world \<Rightarrow> response \<times> world" where
  "fix_stuck_jobs checkSaladStatus now w =
     (case fix_stuck_loop checkSaladStatus now (stuckJobs now (db w)) w of
        (results, w') \<Rightarrow> (Checked results, w'))"

section \<open>Submission, retry and backoff\<close>

definition MAX_RETRY_ATTEMPTS :: nat where
  "MAX_RETRY_ATTEMPTS = 3"

definition RETRY_DELAY_BASE_MS :: real where
  "RETRY_DELAY_BASE_MS = 5000"

definition RETRY_DELAY_MAX_MS :: real where
  "RETRY_DELAY_MAX_MS = 300000"

text \<open>\<^verbatim>\<open>getRetryDelay\<close>; \<open>rnd\<close> is the value of \<^verbatim>\<open>Math.random()\<close>, in \<open>[0, 1)\<close>. The sum
  is exact here; in the code it is rounded to a double, so it can reach
  \<open>delay + 1000\<close> itself.\<close>

definition getRetryDelay :: "real \<Rightarrow> nat \<Rightarrow> real" where
  "getRetryDelay rnd retryCount' =
     (let delay = min (RETRY_DELAY_BASE_MS * 2 ^ retryCount') RETRY_DELAY_MAX_MS;
          jitter = rnd * 1000
      in delay + jitter)"

text \<open>Decimal text of a number, as a template literal prints it.\<close>

fun string_of_nat :: "nat \<Rightarrow> string" where
  "string_of_nat n =
     (if n < 10 then [''0123456789'' ! n]
      else string_of_nat (n div 10) @ [''0123456789'' ! (n mod 10)])"

declare string_of_nat.simps [simp del]

text \<open>\<^verbatim>\<open>toLowerCase\<close> on the ASCII letters.\<close>

definition lower_char :: "char \<Rightarrow> char" where
  "lower_char c =
     (case map_of (zip ''ABCDEFGHIJKLMNOPQRSTUVWXYZ'' ''abcdefghijklmnopqrstuvwxyz'') c of
        None \<Rightarrow> c
      | Some l \<Rightarrow> l)"

definition toLowerCase :: "string \<Rightarrow> string" where
  "toLowerCase s = map lower_char s"

fun starts_with :: "string \<Rightarrow> string \<Rightarrow> bool" where
  "starts_with s [] = True"
| "starts_with [] (p # ps) = False"
| "starts_with (c # cs) (p # ps) = (c = p \<and> starts_with cs ps)"

text \<open>\<^verbatim>\<open>s.includes(pattern)\<close>.\<close>

fun str_includes :: "string \<Rightarrow> string \<Rightarrow> bool" where
  "str_includes [] pattern = (pattern = [])"
| "str_includes (c # cs) pattern = (starts_with (c # cs) pattern \<or> str_includes cs pattern)"

definition retryableErrors :: "string list" where
  "retryableErrors =
     [''network error'', ''timeout'', ''rate limit'', ''temporarily unavailable'',
      ''service unavailable'', ''502'', ''503'', ''504'', ''gateway timeout'']"

definition shouldRetryError :: "string \<Rightarrow> bool" where
  "shouldRetryError message =
     list_ex (\<lambda>pattern. str_includes (toLowerCase message) pattern) retryableErrors"

text \<open>How the submission to Salad ends inside \<^verbatim>\<open>startTranscription\<close>: accepted with the
  external job id, answered with a status that is not ok, or an exception of the given
  name and message (a network failure, an unreadable answer).\<close>

datatype submit_result = Accepted string | NotOk nat | Threw string string

fun error_message :: "submit_result \<Rightarrow> string" where
  "error_message (NotOk code) = ''Salad API error: '' @ string_of_nat code"
| "error_message (Threw name message) = message"
| "error_message (Accepted sid) = []"

text \<open>\<^verbatim>\<open>String(error)\<close>.\<close>

fun error_string :: "submit_result \<Rightarrow> string" where
  "error_string (NotOk code) = ''Error: '' @ error_message (NotOk code)"
| "error_string (Threw name message) =
     (if message = [] then name else if name = [] then message else name @ '': '' @ message)"
| "error_string (Accepted sid) = []"

definition scheduleRetry :: "int \<Rightarrow> real \<Rightarrow> string \<Rightarrow> string \<Rightarrow> nat \<Rightarrow> world \<Rightarrow> world" where
  "scheduleRetry now rnd j fileKey retryCount' w =
     (let delay = getRetryDelay rnd retryCount' in
      w\<lparr> db := update_where_id j
             (\<lambda>r. r\<lparr> status := Retry,
                     retryCount := retryCount',
                     lastRetryAt := Some now,
                     errorMessage := Some (''Retrying in '' @
                       string_of_nat (nat (math_round (delay / 1000))) @ '' seconds (attempt '' @
                       string_of_nat (retryCount' + 1) @ ''/'' @ string_of_nat MAX_RETRY_ATTEMPTS @ '')'') \<rparr>)
             (db w),
         timers := timers w @ [(delay, j, fileKey)] \<rparr>)"

text \<open>\<^verbatim>\<open>(jobResult?.retry_count as number) || 0\<close> after the \<^verbatim>\<open>SELECT retry_count\<close>.\<close>

definition currentRetryCount :: "string \<Rightarrow> world \<Rightarrow> nat" where
  "currentRetryCount j w =
     (case select_by_id j (db w) of None \<Rightarrow> 0 | Some jobResult \<Rightarrow> retryCount jobResult)"

definition startTranscription ::
  "submit_result \<Rightarrow> int \<Rightarrow> real \<Rightarrow> string \<Rightarrow> string \<Rightarrow> world \<Rightarrow> world" where
  "startTranscription outcome now rnd j fileKey w =
     (case outcome of
        Accepted sid \<Rightarrow>
          w\<lparr> db := update_where_id j (\<lambda>r. r\<lparr> saladJobId := Some sid, status := Processing \<rparr>) (db w) \<rparr>
      | _ \<Rightarrow>
          (let currentRetryCount' = currentRetryCount j w;
               shouldRetry = shouldRetryError (error_message outcome)
           in if shouldRetry \<and> currentRetryCount' < MAX_RETRY_ATTEMPTS then
                scheduleRetry now rnd j fileKey currentRetryCount' w
              else
                w\<lparr> db := update_where_id j
                       (\<lambda>r. r\<lparr> status := Error,
                               errorMessage := Some
                                 (if currentRetryCount' \<ge> MAX_RETRY_ATTEMPTS
                                  then ''Failed after '' @ string_of_nat MAX_RETRY_ATTEMPTS @
                                       '' retry attempts: '' @ error_string outcome
                                  else ''Non-retryable error: '' @ error_string outcome) \<rparr>)
                       (db w) \<rparr>))"

text \<open>A timer set by \<^verbatim>\<open>scheduleRetry\<close> fires: the oldest pending one runs
  \<^verbatim>\<open>startTranscription\<close> again for its job, with the outcome of that submission.\<close>

definition fire_timer :: "submit_result \<times> int \<times> real \<Rightarrow> world \<Rightarrow> world" where
  "fire_timer attempt w =
     (case timers w of
        [] \<Rightarrow> w
      | (delay, j, fileKey) # rest \<Rightarrow>
          (case attempt of (outcome, now, rnd) \<Rightarrow>
             startTranscription outcome now rnd j fileKey (w\<lparr> timers := rest \<rparr>)))"

text \<open>A first submission followed by the retries its timers trigger, one outcome each.\<close>

fun fire_timers :: "(submit_result \<times> int \<times> real) list \<Rightarrow> world \<Rightarrow> world" where
  "fire_timers [] w = w"
| "fire_timers (attempt # rest) w = fire_timers rest (fire_timer attempt w)"

section \<open>Example jobs, payloads and worlds\<close>

text \<open>Scenario A of the design: a job in processing with the external id \<^verbatim>\<open>ext-1\<close>.\<close>

definition job_A :: transcription_job where
  "job_A =
     \<lparr> jobId = ''job-1'', filename = ''a.mp3'', fileSize = 1000, fileType = ''audio/mpeg'',
       saladJobId = Some ''ext-1'', status = Processing, transcriptionData = None,
       errorMessage = None, retryCount = 0, lastRetryAt = None, createdAt = 1000,
       completedAt = None, processingTimeMs = 0, estimatedCost = Num 0 \<rparr>"

definition world_A :: world where
  "world_A = \<lparr> db = [job_A], r2 = [], airtable = [], timers = [] \<rparr>"

definition payload_of :: "string \<Rightarrow> string option \<Rightarrow> salad_response" where
  "payload_of st tr =
     \<lparr> job_id = ''ext-1'', salad_status = st, transcript = tr, segments = None,
       summary = None, sentiment = None, translation = None, captions = None,
       processing_time = None, timestamp = None, payload_created_at = None \<rparr>"

definition payload_completed :: salad_response where
  "payload_completed = payload_of ''completed'' (Some ''hello'')"

definition payload_failed :: salad_response where
  "payload_failed = payload_of ''failed'' None"

definition payload_processing :: salad_response where
  "payload_processing = payload_of ''processing'' None"

text \<open>The same job once it is completed.\<close>

definition world_completed :: world where
  "world_completed = \<lparr> db = [job_A\<lparr> status := Completed, completedAt := Some 5000 \<rparr>],
     r2 = [], airtable = [], timers = [] \<rparr>"

text \<open>No string is a date for this parser; enough where the timestamp is a number.\<close>

definition no_parse :: "string \<Rightarrow> int option" where
  "no_parse s = None"

text \<open>Webhook bodies with a timestamp: the epoch as \<^verbatim>\<open>timestamp\<close>, a stale
  \<^verbatim>\<open>timestamp\<close> for the job of Scenario A, and a stale \<^verbatim>\<open>timestamp\<close> on an external id
  no job has.\<close>

definition payload_epoch :: salad_response where
  "payload_epoch = payload_completed\<lparr> timestamp := Some (TsNumber 0) \<rparr>"

definition payload_stale :: salad_response where
  "payload_stale = payload_completed\<lparr> timestamp := Some (TsNumber 1000) \<rparr>"

definition payload_stale_unknown :: salad_response where
  "payload_stale_unknown = payload_completed\<lparr> job_id := ''ext-9'', timestamp := Some (TsNumber 1000) \<rparr>"

text \<open>Scenario B of the design: the world after a first submission of the job of Scenario A
  was answered 503 at instant 1000 with \<^verbatim>\<open>Math.random()\<close> at one half, and three further
  attempts that are answered 503 as well.\<close>

definition world_retry :: world where
  "world_retry =
     \<lparr> db = [job_A\<lparr> status := Retry, errorMessage := Some ''Retrying in 6 seconds (attempt 1/3)'',
                     lastRetryAt := Some 1000 \<rparr>],
       r2 = [], airtable = [], timers = [(5500, ''job-1'', ''uploads/a.mp3'')] \<rparr>"

definition attempts_503 :: "(submit_result \<times> int \<times> real) list" where
  "attempts_503 = [(NotOk 503, 7000, 1 / 2), (NotOk 503, 13000, 1 / 2), (NotOk 503, 19000, 1 / 2)]"

section \<open>Facts about the statements and the side effects\<close>

lemma db_backupTranscriptToR2 [simp]: "db (backupTranscriptToR2 now j td d w) = db w"
  by (simp add: backupTranscriptToR2_def)

lemma airtable_backupTranscriptToR2 [simp]: "airtable (backupTranscriptToR2 now j td d w) = airtable w"
  by (simp add: backupTranscriptToR2_def)

lemma db_sendToAirtable [simp]: "db (sendToAirtable now j d w) = db w"
  by (simp add: sendToAirtable_def split: option.splits)

lemma length_airtable_sendToAirtable:
  "length (airtable (sendToAirtable now j d w)) =
     length (airtable w) + (case select_by_id j (db w) of None \<Rightarrow> 0 | Some r \<Rightarrow> 1)"
  by (simp add: sendToAirtable_def split: option.splits)

lemma jobId_complete_row [simp]: "jobId (complete_row now d r) = jobId r"
  by (simp add: complete_row_def)

lemma select_by_id_update_where_id:
  assumes "\<And>r. jobId (f r) = jobId r"
  shows "select_by_id j (update_where_id j' f rows) =
         (if j = j' then map_option f (select_by_id j rows) else select_by_id j rows)"
  using assms by (induction rows) (auto simp add: select_by_id_def update_where_id_def)

lemma db_updateJobFromSalad_completed:
  assumes "salad_status d = ''completed''" and "truthy_string (transcript d)"
  shows "db (updateJobFromSalad now j d w) = update_where_id j (complete_row now d) (db w)"
  using assms by (simp add: updateJobFromSalad_def)

lemma airtable_updateJobFromSalad_completed:
  assumes "salad_status d = ''completed''" and "truthy_string (transcript d)"
  shows "length (airtable (updateJobFromSalad now j d w)) =
         length (airtable w) + (case select_by_id j (db w) of None \<Rightarrow> 0 | Some r \<Rightarrow> 1)"
  using assms
  by (simp add: updateJobFromSalad_def length_airtable_sendToAirtable
      select_by_id_update_where_id split: option.splits)

lemma filter_update_where_id_other:
  assumes "j \<noteq> j'" and "\<And>r. jobId (f r) = jobId r"
  shows "filter (\<lambda>r. jobId r = j) (update_where_id j' f rows) = filter (\<lambda>r. jobId r = j) rows"
  using assms by (induction rows) (auto simp add: update_where_id_def)

lemma rows_updateJobFromSalad_other:
  assumes "j \<noteq> j'"
  shows "filter (\<lambda>r. jobId r = j) (db (updateJobFromSalad now j' d w)) =
         filter (\<lambda>r. jobId r = j) (db w)"
  using assms by (simp add: updateJobFromSalad_def filter_update_where_id_other)

lemma rows_fix_stuck_job_other:
  assumes "j \<noteq> jobId job"
  shows "filter (\<lambda>r. jobId r = j) (db (snd (fix_stuck_job ck now job w))) =
         filter (\<lambda>r. jobId r = j) (db w)"
  using assms
  by (simp add: fix_stuck_job_def rows_updateJobFromSalad_other filter_update_where_id_other
      split: option.splits)

lemma rows_fix_stuck_loop_other:
  assumes "\<forall>job \<in> set js. jobId job \<noteq> j"
  shows "filter (\<lambda>r. jobId r = j) (db (snd (fix_stuck_loop ck now js w))) =
         filter (\<lambda>r. jobId r = j) (db w)"
  using assms
proof (induction js arbitrary: w)
  case Nil
  then show ?case by simp
next
  case (Cons job rest)
  obtain a w' where step: "fix_stuck_job ck now job w = (a, w')"
    by (cases "fix_stuck_job ck now job w")
  have "filter (\<lambda>r. jobId r = j) (db w') = filter (\<lambda>r. jobId r = j) (db w)"
    using rows_fix_stuck_job_other [of j job ck now w] Cons.prems step by auto
  moreover have "filter (\<lambda>r. jobId r = j) (db (snd (fix_stuck_loop ck now rest w'))) =
      filter (\<lambda>r. jobId r = j) (db w')"
    using Cons.IH Cons.prems by simp
  ultimately show ?case
    by (auto simp add: step split: prod.splits)
qed

lemma stuckJobs_processing:
  assumes "job \<in> set (stuckJobs now rows)"
  shows "job \<in> set rows \<and> status job = Processing"
  using assms by (simp add: stuckJobs_def)

lemma select_by_id_member:
  assumes "select_by_id j rows = Some job"
  shows "job \<in> set rows \<and> jobId job = j"
  using assms by (auto simp add: select_by_id_def find_Some_iff)

lemma select_by_id_status_update:
  "select_by_id j (update_where_id j' (\<lambda>r. r\<lparr> status := s \<rparr>) rows) =
     map_option (\<lambda>r. if j = j' then r\<lparr> status := s \<rparr> else r) (select_by_id j rows)"
  by (induction rows) (auto simp add: select_by_id_def update_where_id_def)

lemma complete_row_absorbs_status:
  "update_where_id j (complete_row now d) (update_where_id j (\<lambda>r. r\<lparr> status := s \<rparr>) rows) =
   update_where_id j (complete_row now d) rows"
  by (simp add: update_where_id_def complete_row_def)

lemma scheduleRetry_ignores_status:
  "scheduleRetry now rnd j fileKey c (w\<lparr> db := update_where_id j (\<lambda>r. r\<lparr> status := s \<rparr>) (db w) \<rparr>) =
   scheduleRetry now rnd j fileKey c w"
  by (simp add: scheduleRetry_def Let_def update_where_id_def)

lemma startTranscription_failure:
  assumes "\<forall>sid. outcome \<noteq> Accepted sid"
  shows "startTranscription outcome now rnd j fileKey w =
     (if shouldRetryError (error_message outcome) \<and> currentRetryCount j w < MAX_RETRY_ATTEMPTS
      then scheduleRetry now rnd j fileKey (currentRetryCount j w) w
      else w\<lparr> db := update_where_id j
                       (\<lambda>r. r\<lparr> status := Error,
                               errorMessage := Some
                                 (if currentRetryCount j w \<ge> MAX_RETRY_ATTEMPTS
                                  then ''Failed after '' @ string_of_nat MAX_RETRY_ATTEMPTS @
                                       '' retry attempts: '' @ error_string outcome
                                  else ''Non-retryable error: '' @ error_string outcome) \<rparr>)
                       (db w) \<rparr>)"
  using assms by (cases outcome) (simp_all add: startTranscription_def currentRetryCount_def Let_def)

lemma error_write_absorbs_status:
  "update_where_id j (\<lambda>r. r\<lparr> status := Error, errorMessage := m \<rparr>)
     (update_where_id j (\<lambda>r. r\<lparr> status := s \<rparr>) rows) =
   update_where_id j (\<lambda>r. r\<lparr> status := Error, errorMessage := m \<rparr>) rows"
  by (simp add: update_where_id_def)

lemma currentRetryCount_ignores_status:
  "currentRetryCount j (w\<lparr> db := update_where_id j (\<lambda>r. r\<lparr> status := s \<rparr>) (db w) \<rparr>) =
   currentRetryCount j w"
  by (simp add: currentRetryCount_def select_by_id_status_update split: option.splits)

lemma startTranscription_ignores_status:
  "startTranscription outcome now rnd j fileKey
     (w\<lparr> db := update_where_id j (\<lambda>r. r\<lparr> status := s \<rparr>) (db w) \<rparr>) =
   startTranscription outcome now rnd j fileKey w"
proof (cases "\<exists>sid. outcome = Accepted sid")
  case True
  then show ?thesis
    by (auto simp add: startTranscription_def update_where_id_def)
next
  case False
  then have fails: "\<forall>sid. outcome \<noteq> Accepted sid" by simp
  show ?thesis
    unfolding startTranscription_failure [OF fails] currentRetryCount_ignores_status
      scheduleRetry_ignores_status
    by (simp add: error_write_absorbs_status)
qed

lemma updateJobFromSalad_completed_ignores_status:
  assumes "salad_status saladData = ''completed''" "truthy_string (transcript saladData)"
  shows "updateJobFromSalad now j saladData
        (w\<lparr> db := update_where_id j (\<lambda>r. r\<lparr> status := s \<rparr>) (db w) \<rparr>) =
      updateJobFromSalad now j saladData w"
proof -
  have sel: "select_by_id j (update_where_id j (complete_row now saladData) (db w)) =
      map_option (complete_row now saladData) (select_by_id j (db w))"
    by (simp add: select_by_id_update_where_id)
  show ?thesis
    using assms
    by (simp add: updateJobFromSalad_def complete_row_absorbs_status backupTranscriptToR2_def
        sendToAirtable_def sel)
qed

lemma updateJobFromSalad_failed_ignores_status:
  assumes "salad_status saladData = ''failed''"
  shows "updateJobFromSalad now j saladData
        (w\<lparr> db := update_where_id j (\<lambda>r. r\<lparr> status := s \<rparr>) (db w) \<rparr>) =
      updateJobFromSalad now j saladData w"
  using assms by (simp add: updateJobFromSalad_def error_write_absorbs_status)

lemma db_startTranscription_accepted:
  "db (startTranscription (Accepted sid) now rnd j fileKey w) =
     update_where_id j (\<lambda>r. r\<lparr> saladJobId := Some sid, status := Processing \<rparr>) (db w)"
  by (simp add: startTranscription_def)

lemma written_rows:
  assumes "\<And>r. jobId (f r) = jobId r" and "\<And>r. g (f r) = c"
  shows "map g (filter (\<lambda>r. jobId r = j) (update_where_id j f rows)) =
         map (\<lambda>r. c) (filter (\<lambda>r. jobId r = j) rows)"
  using assms by (induction rows) (simp_all add: update_where_id_def)

lemma startTranscription_accepted_rows:
  "map (\<lambda>r. (status r, saladJobId r))
     (filter (\<lambda>r. jobId r = j) (db (startTranscription (Accepted sid) now rnd j fileKey w))) =
   map (\<lambda>r. (Processing, Some sid)) (filter (\<lambda>r. jobId r = j) (db w))"
  unfolding db_startTranscription_accepted
  by (rule written_rows) simp_all

lemma select_by_id_scheduleRetry:
  assumes "select_by_id j (db w) = Some job"
  shows "\<exists>job'. select_by_id j (db (scheduleRetry now rnd j fileKey c w)) = Some job' \<and>
           retryCount job' = c \<and> status job' = Retry"
  using assms
  by (simp add: scheduleRetry_def Let_def select_by_id_update_where_id)

lemma timers_scheduleRetry:
  "timers (scheduleRetry now rnd j fileKey c w) = timers w @ [(getRetryDelay rnd c, j, fileKey)]"
  by (simp add: scheduleRetry_def Let_def)

lemma fire_timer_retryable:
  assumes "\<forall>sid. outcome \<noteq> Accepted sid" and "shouldRetryError (error_message outcome)"
      and "select_by_id j (db w) = Some job" and "retryCount job < MAX_RETRY_ATTEMPTS"
      and "timers w = [(d, j, fileKey)]"
  shows "\<exists>job' d'. select_by_id j (db (fire_timer (outcome, now, rnd) w)) = Some job' \<and>
           retryCount job' = retryCount job \<and> status job' = Retry \<and>
           timers (fire_timer (outcome, now, rnd) w) = [(d', j, fileKey)]"
proof -
  let ?w = "w\<lparr> timers := [] \<rparr>"
  have count: "currentRetryCount j ?w = retryCount job"
    using assms(3) by (simp add: currentRetryCount_def)
  have fired: "fire_timer (outcome, now, rnd) w = scheduleRetry now rnd j fileKey (retryCount job) ?w"
    using assms(2,4,5) by (simp add: fire_timer_def startTranscription_failure [OF assms(1)] count)
  have "select_by_id j (db ?w) = Some job"
    using assms(3) by simp
  then obtain job' where "select_by_id j (db (scheduleRetry now rnd j fileKey (retryCount job) ?w)) = Some job'"
    and "retryCount job' = retryCount job" and "status job' = Retry"
    using select_by_id_scheduleRetry by blast
  then show ?thesis
    by (simp add: fired timers_scheduleRetry)
qed

lemma shouldRetryError_503: "shouldRetryError ''Salad API error: 503''"
  by (simp add: shouldRetryError_def toLowerCase_def lower_char_def retryableErrors_def)

lemma first_failure_503: "startTranscription (NotOk 503) 1000 (1 / 2) ''job-1'' ''uploads/a.mp3'' world_A = world_retry"
  by (simp add: startTranscription_failure shouldRetryError_503 currentRetryCount_def world_A_def job_A_def select_by_id_def
      MAX_RETRY_ATTEMPTS_def scheduleRetry_def getRetryDelay_def RETRY_DELAY_BASE_MS_def RETRY_DELAY_MAX_MS_def
      math_round_def string_of_nat.simps update_where_id_def world_retry_def Let_def)

lemma four_failures_503: "fire_timers attempts_503 world_retry =
   world_retry\<lparr> db := [job_A\<lparr> status := Retry, errorMessage := Some ''Retrying in 6 seconds (attempt 1/3)'',
                     lastRetryAt := Some 19000 \<rparr>] \<rparr>"
  by (simp add: attempts_503_def fire_timer_def startTranscription_failure shouldRetryError_503 currentRetryCount_def world_A_def job_A_def select_by_id_def
      MAX_RETRY_ATTEMPTS_def scheduleRetry_def getRetryDelay_def RETRY_DELAY_BASE_MS_def RETRY_DELAY_MAX_MS_def
      math_round_def string_of_nat.simps update_where_id_def world_retry_def Let_def)

lemma startTranscription_schedules_below_max:
  "timers (startTranscription outcome now rnd j fileKey w) = timers w \<or>
   currentRetryCount j w < MAX_RETRY_ATTEMPTS \<and>
   timers (startTranscription outcome now rnd j fileKey w) =
     timers w @ [(getRetryDelay rnd (currentRetryCount j w), j, fileKey)]"
proof (cases "\<exists>sid. outcome = Accepted sid")
  case True
  then show ?thesis by (auto simp add: db_startTranscription_accepted startTranscription_def)
next
  case False
  then have fails: "\<forall>sid. outcome \<noteq> Accepted sid" by simp
  show ?thesis
    unfolding startTranscription_failure [OF fails]
    by (simp add: timers_scheduleRetry)
qed

lemma webhook_stale_rejected_by_source:
  assumes "truthy_ts (Some v)"
      and "date_getTime parse v = Some webhookTime"
      and "\<bar>now - webhookTime\<bar> > 300000"
      and "timestamp payload = Some v \<or>
           \<not> truthy_ts (timestamp payload) \<and> payload_created_at payload = Some v \<or>
           \<not> truthy_ts (timestamp payload) \<and> \<not> truthy_ts (payload_created_at payload) \<and>
             map_option TsString header = Some v"
  shows "webhook_salad parse now header (Some payload) w = (ErrorJson ''Webhook expired'' 401, w)"
proof -
  have "webhookTimestamp payload header = Some v"
    using assms(1,4) by (auto simp add: webhookTimestamp_def js_or_def)
  then show ?thesis
    using assms(1-3) by (simp add: webhook_salad_def webhook_too_old_def)
qed

lemma webhook_salad_accepted:
  assumes "\<not> webhook_too_old parse now saladData header"
      and "select_by_salad_job_id (job_id saladData) (db w) = Some result"
  shows "snd (webhook_salad parse now header (Some saladData) w) =
         updateJobFromSalad now (jobId result) saladData w"
  using assms by (simp add: webhook_salad_def)

lemma fix_stuck_jobs_single:
  assumes "stuckJobs now (db w) = [job]"
  shows "snd (fix_stuck_jobs checkSaladStatus now w) = snd (fix_stuck_job checkSaladStatus now job w)"
  using assms by (simp add: fix_stuck_jobs_def split: prod.splits)

section \<open>Payloads that are not terminal change nothing\<close>

text \<open>
  Claim C8. When the payload is neither \<^verbatim>\<open>completed\<close> with a non-empty transcript nor
  \<^verbatim>\<open>failed\<close> (so \<^verbatim>\<open>queued\<close>, \<^verbatim>\<open>processing\<close>, any other text, or \<^verbatim>\<open>completed\<close> with no
  transcript), \<^verbatim>\<open>updateJobFromSalad\<close> returns the world as it found it: no row, no stored
  object, no notification changes. A status poll whose answer from Salad is such a
  payload, in particular one still \<^verbatim>\<open>processing\<close>, leaves the world as it was too.
\<close>

theorem updateJobFromSalad_unrecognized_noop:
  assumes "\<not> (salad_status saladData = ''completed'' \<and> truthy_string (transcript saladData))"
      and "salad_status saladData \<noteq> ''failed''"
  shows "updateJobFromSalad now j saladData w = w \<and>
         snd (job_status_route (\<lambda>sid. Some saladData) now j w) = w"
proof -
  have noop: "updateJobFromSalad now j saladData w = w"
    using assms by (auto simp add: updateJobFromSalad_def)
  have "snd (job_status_route (\<lambda>sid. Some saladData) now j w) = w"
    by (simp add: job_status_route_def noop Let_def split: option.splits)
  with noop show ?thesis by simp
qed

theorem updateJobFromSalad_unrecognized_noop_witness:
  "updateJobFromSalad 7000 ''job-1'' payload_processing world_A = world_A \<and>
   snd (job_status_route (\<lambda>sid. Some payload_processing) 7000 ''job-1'' world_A) = world_A"
  using updateJobFromSalad_unrecognized_noop [of payload_processing 7000 "''job-1''" world_A]
  by (simp add: payload_processing_def payload_of_def)

section \<open>Applying the same completion twice\<close>

text \<open>
  Claim C1, as the code has it. \<^verbatim>\<open>updateJobFromSalad\<close> does not read the job's status:
  a second call with the same \<^verbatim>\<open>completed\<close> payload (with a transcript) for a stored job
  writes the row again. After the two calls the table is the table after the first call
  with \<^verbatim>\<open>completed_at\<close> set to the time of the second call, every other field as the first
  call left it; and \<^verbatim>\<open>sendToAirtable\<close> posts once in each call, twice in all.
\<close>

theorem updateJobFromSalad_twice:
  assumes "salad_status saladData = ''completed''" and "truthy_string (transcript saladData)"
      and "select_by_id j (db w) = Some job"
  shows "db (updateJobFromSalad t2 j saladData (updateJobFromSalad t1 j saladData w)) =
           update_where_id j (\<lambda>r. r\<lparr> completedAt := Some t2 \<rparr>)
             (db (updateJobFromSalad t1 j saladData w)) \<and>
         length (airtable (updateJobFromSalad t2 j saladData (updateJobFromSalad t1 j saladData w))) =
           length (airtable w) + 2"
proof -
  let ?w1 = "updateJobFromSalad t1 j saladData w"
  have db1: "db ?w1 = update_where_id j (complete_row t1 saladData) (db w)"
    using assms(1,2) by (rule db_updateJobFromSalad_completed)
  have "db (updateJobFromSalad t2 j saladData ?w1) = update_where_id j (complete_row t2 saladData) (db ?w1)"
    using assms(1,2) by (rule db_updateJobFromSalad_completed)
  also have "\<dots> = update_where_id j (\<lambda>r. r\<lparr> completedAt := Some t2 \<rparr>) (db ?w1)"
    by (simp add: db1 update_where_id_def complete_row_def)
  finally have rows: "db (updateJobFromSalad t2 j saladData ?w1) =
      update_where_id j (\<lambda>r. r\<lparr> completedAt := Some t2 \<rparr>) (db ?w1)" .
  have found1: "select_by_id j (db ?w1) = Some (complete_row t1 saladData job)"
    by (simp add: db1 select_by_id_update_where_id assms(3))
  have "length (airtable ?w1) = length (airtable w) + 1"
    using airtable_updateJobFromSalad_completed [OF assms(1,2), of t1 j w] assms(3) by simp
  moreover have "length (airtable (updateJobFromSalad t2 j saladData ?w1)) = length (airtable ?w1) + 1"
    using airtable_updateJobFromSalad_completed [OF assms(1,2), of t2 j ?w1] found1 by simp
  ultimately show ?thesis using rows by simp
qed

theorem updateJobFromSalad_twice_witness:
  "db (updateJobFromSalad 8000 ''job-1'' payload_completed
         (updateJobFromSalad 7000 ''job-1'' payload_completed world_A)) =
     update_where_id ''job-1'' (\<lambda>r. r\<lparr> completedAt := Some 8000 \<rparr>)
       (db (updateJobFromSalad 7000 ''job-1'' payload_completed world_A)) \<and>
   length (airtable (updateJobFromSalad 8000 ''job-1'' payload_completed
         (updateJobFromSalad 7000 ''job-1'' payload_completed world_A))) = length (airtable world_A) + 2"
  using updateJobFromSalad_twice [of payload_completed "''job-1''" world_A job_A 8000 7000]
  by (simp add: payload_completed_def payload_of_def world_A_def select_by_id_def job_A_def)

text \<open>
  The claim as stated (the same final state as one call, one notification over the two
  calls) fails for the job of Scenario A completed at 7000 and again at 8000: the table
  differs from the one after one call, and two bodies were posted.
\<close>

theorem updateJobFromSalad_twice_counterexample:
  "db (updateJobFromSalad 8000 ''job-1'' payload_completed
         (updateJobFromSalad 7000 ''job-1'' payload_completed world_A)) \<noteq>
     db (updateJobFromSalad 7000 ''job-1'' payload_completed world_A) \<and>
   length (airtable (updateJobFromSalad 8000 ''job-1'' payload_completed
         (updateJobFromSalad 7000 ''job-1'' payload_completed world_A))) = 2"
  by (simp add: updateJobFromSalad_def payload_completed_def payload_of_def world_A_def
     update_where_id_def job_A_def backupTranscriptToR2_def sendToAirtable_def select_by_id_def complete_row_def)

section \<open>The backoff delay\<close>

text \<open>
  Claim C5. \<^verbatim>\<open>getRetryDelay\<close> is called from \<^verbatim>\<open>scheduleRetry\<close> only, and
  \<^verbatim>\<open>startTranscription\<close> reaches that call only with a retry count below
  \<^verbatim>\<open>MAX_RETRY_ATTEMPTS\<close>. For every such retry attempt \<open>n\<close> and every jitter
  \<open>rnd * 1000\<close> in \<open>[0, 1000]\<close> ms the computed delay equals
  \<open>min (base * 2 ^ n + jitter) cap\<close> with base 5000 ms and cap 300000 ms; it lies in
  \<open>[base * 2 ^ n, base * 2 ^ n + 1000]\<close> and does not exceed the cap. The bounds are the
  closed ones of the claim, which a sum rounded to the nearest double keeps as well.
\<close>

theorem getRetryDelay_scheduled_attempts:
  assumes "n < MAX_RETRY_ATTEMPTS" and "0 \<le> rnd" and "rnd \<le> 1"
  shows "getRetryDelay rnd n = min (RETRY_DELAY_BASE_MS * 2 ^ n + rnd * 1000) RETRY_DELAY_MAX_MS \<and>
         RETRY_DELAY_BASE_MS * 2 ^ n \<le> getRetryDelay rnd n \<and>
         getRetryDelay rnd n \<le> RETRY_DELAY_BASE_MS * 2 ^ n + 1000 \<and>
         getRetryDelay rnd n \<le> RETRY_DELAY_MAX_MS"
proof -
  have "n \<le> 2"
    using assms(1) by (simp add: MAX_RETRY_ATTEMPTS_def)
  then have "(2::real) ^ n \<le> 2 ^ 2"
    by (intro power_increasing) simp_all
  then have small: "RETRY_DELAY_BASE_MS * 2 ^ n \<le> 20000"
    by (simp add: RETRY_DELAY_BASE_MS_def)
  have eq: "getRetryDelay rnd n = min (RETRY_DELAY_BASE_MS * 2 ^ n) RETRY_DELAY_MAX_MS + rnd * 1000"
    by (simp add: getRetryDelay_def Let_def)
  show ?thesis
    using assms(2,3) small by (simp add: eq RETRY_DELAY_MAX_MS_def min_def)
qed

theorem getRetryDelay_scheduled_attempts_witness:
  "getRetryDelay 1 2 = min (RETRY_DELAY_BASE_MS * 2 ^ 2 + 1 * 1000) RETRY_DELAY_MAX_MS \<and>
   getRetryDelay 1 2 = 21000 \<and>
   RETRY_DELAY_BASE_MS * 2 ^ 2 \<le> getRetryDelay 1 2 \<and>
   getRetryDelay 1 2 \<le> RETRY_DELAY_BASE_MS * 2 ^ 2 + 1000 \<and>
   getRetryDelay 1 2 \<le> RETRY_DELAY_MAX_MS"
  using getRetryDelay_scheduled_attempts [of 2 1]
  by (simp add: MAX_RETRY_ATTEMPTS_def RETRY_DELAY_BASE_MS_def RETRY_DELAY_MAX_MS_def)

section \<open>The replay check of the webhook route\<close>

text \<open>
  Claim C6, evaluated on the code. The route means to reject every webhook whose
  timestamp is more than 300000 ms away from now, and does so before the job is looked
  up: the body of Scenario A stamped 1000 is answered 401 \<^verbatim>\<open>Webhook expired\<close> at
  now = 1000000 and the world is as before. The same body stamped with the number 0 (the
  epoch, further in the past still) is not rejected: \<^verbatim>\<open>0 || undefined || undefined\<close> is
  falsy, \<^verbatim>\<open>if (webhookTimestamp)\<close> skips the check, the route answers success and the
  job goes from \<^verbatim>\<open>processing\<close> to \<^verbatim>\<open>completed\<close>.
\<close>

theorem webhook_epoch_timestamp_accepted:
  "timestamp payload_epoch = Some (TsNumber 0) \<and>
   date_getTime no_parse (TsNumber 0) = Some 0 \<and>
   \<bar>1000000 - 0\<bar> > (300000::int) \<and>
   webhook_salad no_parse 1000000 None (Some payload_epoch) world_A =
     (Success, updateJobFromSalad 1000000 ''job-1'' payload_epoch world_A) \<and>
   map status (db world_A) = [Processing] \<and>
   map status (db (snd (webhook_salad no_parse 1000000 None (Some payload_epoch) world_A))) = [Completed] \<and>
   webhook_salad no_parse 1000000 None (Some payload_stale) world_A =
     (ErrorJson ''Webhook expired'' 401, world_A)"
  by (simp add: payload_epoch_def payload_stale_def payload_completed_def payload_of_def webhook_salad_def
      webhook_too_old_def webhookTimestamp_def js_or_def select_by_salad_job_id_def world_A_def job_A_def
      updateJobFromSalad_def update_where_id_def complete_row_def)

section \<open>A webhook for an unknown external job id\<close>

text \<open>
  Claim C9, as the code has it. When no stored job has the payload's \<^verbatim>\<open>job_id\<close> as its
  external id, the route changes nothing; it answers 404 \<^verbatim>\<open>Job not found\<close> when the
  replay check lets the body through, and 401 \<^verbatim>\<open>Webhook expired\<close> when the check, which
  runs first, refuses it.
\<close>

theorem webhook_unknown_job:
  assumes "\<forall>r \<in> set (db w). saladJobId r \<noteq> Some (job_id payload)"
  shows "webhook_salad parse now header (Some payload) w =
           (if webhook_too_old parse now payload header
            then (ErrorJson ''Webhook expired'' 401, w)
            else (ErrorJson ''Job not found'' 404, w))"
proof -
  have "select_by_salad_job_id (job_id payload) (db w) = None"
    using assms by (simp add: select_by_salad_job_id_def find_None_iff)
  then show ?thesis by (simp add: webhook_salad_def)
qed

theorem webhook_unknown_job_witness:
  "webhook_salad no_parse 1000000 None (Some (payload_completed\<lparr> job_id := ''ext-9'' \<rparr>)) world_A =
     (ErrorJson ''Job not found'' 404, world_A)"
  using webhook_unknown_job [of world_A "payload_completed\<lparr> job_id := ''ext-9'' \<rparr>" no_parse 1000000 None]
  by (simp add: payload_completed_def payload_of_def world_A_def job_A_def webhook_too_old_def
      webhookTimestamp_def js_or_def)

text \<open>
  The claim as stated (not-found for every unknown id) fails for a body with an unknown
  id and a stale timestamp: the answer is 401 \<^verbatim>\<open>Webhook expired\<close>.
\<close>

theorem webhook_unknown_job_counterexample:
  "map saladJobId (db world_A) = [Some ''ext-1''] \<and>
   job_id payload_stale_unknown = ''ext-9'' \<and>
   webhook_salad no_parse 1000000 None (Some payload_stale_unknown) world_A =
     (ErrorJson ''Webhook expired'' 401, world_A)"
  by (simp add: payload_stale_unknown_def payload_completed_def payload_of_def world_A_def job_A_def
     webhook_salad_def webhook_too_old_def webhookTimestamp_def js_or_def)

section \<open>A webhook without a timestamp\<close>

text \<open>
  Claim C10. For every webhook body with no \<^verbatim>\<open>timestamp\<close> field, no \<^verbatim>\<open>created_at\<close> field
  and no \<^verbatim>\<open>x-webhook-timestamp\<close> header, the replay check is skipped: the route goes on
  to the lookup by external id and to the reconciliation, as it does for a fresh body.
  For such a body the route answers \<^verbatim>\<open>Webhook expired\<close> if and only if a timestamp is
  present in one of the three places and is more than 300000 ms away from now, which is
  never.
\<close>

theorem webhook_without_timestamp:
  assumes "timestamp payload = None" and "payload_created_at payload = None" and "header = None"
  shows "\<not> webhook_too_old parse now payload header \<and>
         webhook_salad parse now header (Some payload) w =
           (case select_by_salad_job_id (job_id payload) (db w) of
              None \<Rightarrow> (ErrorJson ''Job not found'' 404, w)
            | Some result \<Rightarrow> (Success, updateJobFromSalad now (jobId result) payload w)) \<and>
         (fst (webhook_salad parse now header (Some payload) w) = ErrorJson ''Webhook expired'' 401 \<longleftrightarrow>
            (\<exists>v webhookTime.
               (timestamp payload = Some v \<or> payload_created_at payload = Some v \<or>
                map_option TsString header = Some v) \<and>
               date_getTime parse v = Some webhookTime \<and> \<bar>now - webhookTime\<bar> > 300000))"
proof -
  have skipped: "\<not> webhook_too_old parse now payload header"
    using assms by (simp add: webhook_too_old_def webhookTimestamp_def js_or_def)
  then have route: "webhook_salad parse now header (Some payload) w =
           (case select_by_salad_job_id (job_id payload) (db w) of
              None \<Rightarrow> (ErrorJson ''Job not found'' 404, w)
            | Some result \<Rightarrow> (Success, updateJobFromSalad now (jobId result) payload w))"
    by (simp add: webhook_salad_def)
  have "fst (webhook_salad parse now header (Some payload) w) \<noteq> ErrorJson ''Webhook expired'' 401"
    by (simp add: route split: option.splits)
  with skipped route assms show ?thesis by simp
qed

theorem webhook_without_timestamp_witness:
  "\<not> webhook_too_old no_parse 1000000 payload_completed None \<and>
   webhook_salad no_parse 1000000 None (Some payload_completed) world_A =
     (Success, updateJobFromSalad 1000000 ''job-1'' payload_completed world_A) \<and>
   fst (webhook_salad no_parse 1000000 None (Some payload_completed) world_A) \<noteq>
     ErrorJson ''Webhook expired'' 401"
  using webhook_without_timestamp [of payload_completed None no_parse 1000000 world_A]
  by (simp add: payload_completed_def payload_of_def world_A_def job_A_def select_by_salad_job_id_def)

section \<open>The sweep against the webhook path\<close>

text \<open>
  Claim C7, as the code has it. Take a stuck job and the result its poll returns, and
  the webhook route handling that same result as a body that passes the replay check
  and whose \<^verbatim>\<open>job_id\<close> is found as the external id of that job. For a \<^verbatim>\<open>completed\<close> (or
  \<^verbatim>\<open>succeeded\<close>) result the sweep calls \<^verbatim>\<open>updateJobFromSalad\<close> as the route does, and the
  world after the sweep's step is the world after the route. For a \<^verbatim>\<open>failed\<close> result the
  sweep writes the row itself: the table is the one the route leaves except that
  \<^verbatim>\<open>error_message\<close> reads \<^verbatim>\<open>Job failed at Salad\<close> where the route writes
  \<^verbatim>\<open>Transcription failed\<close>; stored objects, notifications and timers agree.
\<close>

theorem sweep_versus_webhook:
  assumes "checkSaladStatus (salad_id_text (saladJobId job)) = Some saladData"
      and "\<not> webhook_too_old parse now saladData header"
      and "select_by_salad_job_id (job_id saladData) (db w) = Some result"
      and "jobId result = jobId job"
  shows "(salad_status saladData = ''completed'' \<or> salad_status saladData = ''succeeded'' \<longrightarrow>
            snd (fix_stuck_job checkSaladStatus now job w) =
              snd (webhook_salad parse now header (Some saladData) w)) \<and>
         (salad_status saladData = ''failed'' \<longrightarrow>
            db (snd (fix_stuck_job checkSaladStatus now job w)) =
              update_where_id (jobId job) (\<lambda>r. r\<lparr> errorMessage := Some ''Job failed at Salad'' \<rparr>)
                (db (snd (webhook_salad parse now header (Some saladData) w))) \<and>
            r2 (snd (fix_stuck_job checkSaladStatus now job w)) =
              r2 (snd (webhook_salad parse now header (Some saladData) w)) \<and>
            airtable (snd (fix_stuck_job checkSaladStatus now job w)) =
              airtable (snd (webhook_salad parse now header (Some saladData) w)) \<and>
            timers (snd (fix_stuck_job checkSaladStatus now job w)) =
              timers (snd (webhook_salad parse now header (Some saladData) w)))"
proof -
  have hook: "snd (webhook_salad parse now header (Some saladData) w) =
      updateJobFromSalad now (jobId job) saladData w"
    using webhook_salad_accepted [OF assms(2,3)] assms(4) by simp
  show ?thesis
    unfolding hook using assms(1)
    by (simp add: fix_stuck_job_def updateJobFromSalad_def update_where_id_def)
qed

theorem sweep_versus_webhook_witness:
  "snd (fix_stuck_jobs (\<lambda>sid. Some payload_completed) 9000000 world_A) =
     snd (webhook_salad no_parse 9000000 None (Some payload_completed) world_A) \<and>
   db (snd (fix_stuck_jobs (\<lambda>sid. Some payload_failed) 9000000 world_A)) =
     update_where_id ''job-1'' (\<lambda>r. r\<lparr> errorMessage := Some ''Job failed at Salad'' \<rparr>)
       (db (snd (webhook_salad no_parse 9000000 None (Some payload_failed) world_A)))"
proof -
  have stuck: "stuckJobs 9000000 (db world_A) = [job_A]"
    by (simp add: stuckJobs_def world_A_def job_A_def)
  have found: "select_by_salad_job_id ''ext-1'' (db world_A) = Some job_A"
    by (simp add: select_by_salad_job_id_def world_A_def job_A_def)
  have fresh: "\<not> webhook_too_old no_parse 9000000 (payload_of st tr) None" for st tr
    by (simp add: webhook_too_old_def webhookTimestamp_def js_or_def payload_of_def)
  show ?thesis
    using sweep_versus_webhook [of "\<lambda>sid. Some payload_completed" job_A payload_completed no_parse
        9000000 None world_A job_A]
      sweep_versus_webhook [of "\<lambda>sid. Some payload_failed" job_A payload_failed no_parse
        9000000 None world_A job_A]
      found fresh
    by (simp add: fix_stuck_jobs_single [OF stuck] payload_completed_def payload_failed_def
        payload_of_def job_A_def)
qed

text \<open>
  The claim as stated fails for a \<^verbatim>\<open>failed\<close> result: for the job of Scenario A, stuck at
  now = 9000000 ms, the table after the sweep differs from the table after the webhook
  route has handled the same payload.
\<close>

theorem sweep_failed_counterexample:
  "stuckJobs 9000000 (db world_A) = [job_A] \<and>
   db (snd (fix_stuck_jobs (\<lambda>sid. Some payload_failed) 9000000 world_A)) \<noteq>
   db (snd (webhook_salad no_parse 9000000 None (Some payload_failed) world_A))"
  by (simp add: fix_stuck_jobs_def stuckJobs_def fix_stuck_job_def world_A_def job_A_def payload_failed_def payload_of_def
     webhook_salad_def webhook_too_old_def webhookTimestamp_def js_or_def select_by_salad_job_id_def
     updateJobFromSalad_def update_where_id_def)

section \<open>Jobs that are completed or in error\<close>

text \<open>
  Claim C2, as the code has it. When every row with the job's id has status
  \<^verbatim>\<open>completed\<close> or \<^verbatim>\<open>error\<close>, a status poll of that job leaves the whole world as it was,
  a status poll of any job leaves the rows of that job as they were, and so does the
  sweep over stuck jobs: both act on rows in \<^verbatim>\<open>processing\<close> only, whatever Salad answers.
\<close>

theorem terminal_job_kept_by_poll_and_sweep:
  assumes "\<forall>r \<in> set (db w). jobId r = j \<longrightarrow> status r = Completed \<or> status r = Error"
  shows "snd (job_status_route checkSaladStatus now j w) = w \<and>
         filter (\<lambda>r. jobId r = j) (db (snd (job_status_route checkSaladStatus now j' w))) =
           filter (\<lambda>r. jobId r = j) (db w) \<and>
         filter (\<lambda>r. jobId r = j) (db (snd (fix_stuck_jobs checkSaladStatus now w))) =
           filter (\<lambda>r. jobId r = j) (db w)"
proof -
  have same: "snd (job_status_route checkSaladStatus now j w) = w"
  proof (cases "select_by_id j (db w)")
    case None
    then show ?thesis by (simp add: job_status_route_def)
  next
    case (Some job)
    then have "status job \<noteq> Processing"
      using assms select_by_id_member by fastforce
    with Some show ?thesis
      by (simp add: job_status_route_def split: option.splits)
  qed
  have other: "filter (\<lambda>r. jobId r = j) (db (snd (job_status_route checkSaladStatus now j' w))) =
           filter (\<lambda>r. jobId r = j) (db w)"
  proof (cases "j' = j")
    case True
    with same show ?thesis by simp
  next
    case False
    then have "j \<noteq> j'" by simp
    then show ?thesis
      by (simp add: job_status_route_def rows_updateJobFromSalad_other Let_def split: option.splits)
  qed
  have "\<forall>job \<in> set (stuckJobs now (db w)). jobId job \<noteq> j"
    using assms stuckJobs_processing by fastforce
  then have "filter (\<lambda>r. jobId r = j)
        (db (snd (fix_stuck_loop checkSaladStatus now (stuckJobs now (db w)) w))) =
      filter (\<lambda>r. jobId r = j) (db w)"
    by (rule rows_fix_stuck_loop_other)
  then have "filter (\<lambda>r. jobId r = j) (db (snd (fix_stuck_jobs checkSaladStatus now w))) =
      filter (\<lambda>r. jobId r = j) (db w)"
    by (auto simp add: fix_stuck_jobs_def split: prod.splits)
  with same other show ?thesis by simp
qed

theorem terminal_job_kept_by_poll_and_sweep_witness:
  "snd (job_status_route (\<lambda>sid. Some payload_failed) 9000000 ''job-1'' world_completed) = world_completed \<and>
   filter (\<lambda>r. jobId r = ''job-1'')
     (db (snd (fix_stuck_jobs (\<lambda>sid. Some payload_failed) 9000000 world_completed))) =
   filter (\<lambda>r. jobId r = ''job-1'') (db world_completed)"
  using terminal_job_kept_by_poll_and_sweep
    [of world_completed "''job-1''" "\<lambda>sid. Some payload_failed" 9000000 "''job-1''"]
  by (simp add: world_completed_def job_A_def)

text \<open>
  The claim as stated fails for the webhook: \<^verbatim>\<open>updateJobFromSalad\<close> writes without reading
  the status, so a \<^verbatim>\<open>failed\<close> payload delivered for the completed job of Scenario A turns
  its status into \<^verbatim>\<open>error\<close> and sets its error message.
\<close>

theorem terminal_job_overwritten_counterexample:
  "map status (db world_completed) = [Completed] \<and>
   map status (db (snd (webhook_salad no_parse 9000000 None (Some payload_failed) world_completed))) = [Error] \<and>
   map errorMessage (db world_completed) = [None] \<and>
   map errorMessage (db (snd (webhook_salad no_parse 9000000 None (Some payload_failed) world_completed))) =
     [Some ''Transcription failed'']"
  by (simp add: world_completed_def job_A_def payload_failed_def payload_of_def
     webhook_salad_def webhook_too_old_def webhookTimestamp_def js_or_def select_by_salad_job_id_def
     updateJobFromSalad_def update_where_id_def)

section \<open>Transitions are writes keyed by the job id\<close>

text \<open>
  Claim C4, as the code has it. The transitions written by \<^verbatim>\<open>updateJobFromSalad\<close> and by
  \<^verbatim>\<open>startTranscription\<close> are \<^verbatim>\<open>UPDATE ... WHERE id = ?\<close> statements that do not read the
  status: had the rows of the job any other status \<open>s\<close> beforehand, the world after a
  terminal payload, and after a submission with any outcome, would be the same. On
  acceptance \<^verbatim>\<open>startTranscription\<close> leaves every row of the job in \<^verbatim>\<open>processing\<close> with the
  new external id. No predecessor is checked and no write is skipped.
\<close>

theorem transitions_ignore_current_status:
  "(salad_status saladData = ''completed'' \<and> truthy_string (transcript saladData) \<or>
    salad_status saladData = ''failed'' \<longrightarrow>
      updateJobFromSalad now j saladData
        (w\<lparr> db := update_where_id j (\<lambda>r. r\<lparr> status := s \<rparr>) (db w) \<rparr>) =
      updateJobFromSalad now j saladData w) \<and>
   startTranscription outcome now rnd j fileKey
     (w\<lparr> db := update_where_id j (\<lambda>r. r\<lparr> status := s \<rparr>) (db w) \<rparr>) =
   startTranscription outcome now rnd j fileKey w \<and>
   map (\<lambda>r. (status r, saladJobId r))
     (filter (\<lambda>r. jobId r = j) (db (startTranscription (Accepted sid) now rnd j fileKey w))) =
   map (\<lambda>r. (Processing, Some sid)) (filter (\<lambda>r. jobId r = j) (db w))"
proof (intro conjI impI)
  assume "salad_status saladData = ''completed'' \<and> truthy_string (transcript saladData) \<or>
    salad_status saladData = ''failed''"
  then show "updateJobFromSalad now j saladData
        (w\<lparr> db := update_where_id j (\<lambda>r. r\<lparr> status := s \<rparr>) (db w) \<rparr>) =
      updateJobFromSalad now j saladData w"
  proof
    assume "salad_status saladData = ''completed'' \<and> truthy_string (transcript saladData)"
    then show ?thesis
      using updateJobFromSalad_completed_ignores_status by simp
  next
    assume "salad_status saladData = ''failed''"
    then show ?thesis
      by (rule updateJobFromSalad_failed_ignores_status)
  qed
next
  show "startTranscription outcome now rnd j fileKey
     (w\<lparr> db := update_where_id j (\<lambda>r. r\<lparr> status := s \<rparr>) (db w) \<rparr>) =
   startTranscription outcome now rnd j fileKey w"
    by (rule startTranscription_ignores_status)
next
  show "map (\<lambda>r. (status r, saladJobId r))
     (filter (\<lambda>r. jobId r = j) (db (startTranscription (Accepted sid) now rnd j fileKey w))) =
   map (\<lambda>r. (Processing, Some sid)) (filter (\<lambda>r. jobId r = j) (db w))"
    by (rule startTranscription_accepted_rows)
qed

theorem transitions_ignore_current_status_witness:
  "updateJobFromSalad 9000 ''job-1'' payload_failed
     (world_A\<lparr> db := update_where_id ''job-1'' (\<lambda>r. r\<lparr> status := Completed \<rparr>) (db world_A) \<rparr>) =
   updateJobFromSalad 9000 ''job-1'' payload_failed world_A"
  using transitions_ignore_current_status
     [where saladData = payload_failed and now = 9000 and j = "''job-1''" and w = world_A
        and s = Completed]
  by (simp add: payload_failed_def payload_of_def)

text \<open>
  The claim as stated fails for a job that is not in a legal predecessor state: an accepted
  submission for the completed job of Scenario A puts it back in \<^verbatim>\<open>processing\<close> and replaces
  its external id.
\<close>

theorem startTranscription_completed_counterexample:
  "map status (db world_completed) = [Completed] \<and>
   map saladJobId (db world_completed) = [Some ''ext-1''] \<and>
   map status (db (startTranscription (Accepted ''ext-2'') 9000 0 ''job-1'' ''k'' world_completed)) =
     [Processing] \<and>
   map saladJobId (db (startTranscription (Accepted ''ext-2'') 9000 0 ''job-1'' ''k'' world_completed)) =
     [Some ''ext-2'']"
  by (simp add: world_completed_def job_A_def db_startTranscription_accepted update_where_id_def)

section \<open>Retries of a failing submission\<close>

text \<open>
  Claim C3, evaluated on the code. \<^verbatim>\<open>startTranscription\<close> reads the persisted retry count
  and hands that same number to \<^verbatim>\<open>scheduleRetry\<close>, which writes it back: no retry ever
  increments it. For a job with a pending retry timer and a count below
  \<^verbatim>\<open>MAX_RETRY_ATTEMPTS\<close>, after any number of timer firings whose submissions all fail with
  a retryable error, the job is still in \<^verbatim>\<open>retry\<close> with the count it had, and a timer is
  pending again; the final \<^verbatim>\<open>error\<close> of the claim is never reached. In Scenario B (four
  answers 503) the job ends in \<^verbatim>\<open>retry\<close> with count 0 and the message of attempt 1 of 3.
\<close>

theorem retry_count_is_never_incremented:
  assumes "\<forall>a \<in> set attempts. (\<forall>sid. fst a \<noteq> Accepted sid) \<and> shouldRetryError (error_message (fst a))"
      and "select_by_id j (db w) = Some job"
      and "status job = Retry"
      and "retryCount job < MAX_RETRY_ATTEMPTS"
      and "timers w = [(d, j, fileKey)]"
  shows "\<exists>job' d'. select_by_id j (db (fire_timers attempts w)) = Some job' \<and>
           retryCount job' = retryCount job \<and> status job' = Retry \<and>
           timers (fire_timers attempts w) = [(d', j, fileKey)]"
  using assms
proof (induction attempts arbitrary: w job d)
  case Nil
  then show ?case by simp
next
  case (Cons a rest)
  obtain outcome now rnd where a: "a = (outcome, now, rnd)"
    by (cases a)
  have "\<forall>sid. outcome \<noteq> Accepted sid" and "shouldRetryError (error_message outcome)"
    using Cons.prems(1) a by simp_all
  then obtain job' d' where
      found: "select_by_id j (db (fire_timer a w)) = Some job'"
      and same: "retryCount job' = retryCount job" and st: "status job' = Retry"
      and pending: "timers (fire_timer a w) = [(d', j, fileKey)]"
    using fire_timer_retryable [of outcome j w job d fileKey now rnd] Cons.prems(2,4,5) a by auto
  have "\<exists>job'' d''. select_by_id j (db (fire_timers rest (fire_timer a w))) = Some job'' \<and>
           retryCount job'' = retryCount job' \<and> status job'' = Retry \<and>
           timers (fire_timers rest (fire_timer a w)) = [(d'', j, fileKey)]"
    using Cons.IH [OF _ found st _ pending] Cons.prems(1,4) same by simp
  then show ?case
    by (simp add: same)
qed

theorem retry_count_is_never_incremented_witness:
  "startTranscription (NotOk 503) 1000 (1 / 2) ''job-1'' ''uploads/a.mp3'' world_A = world_retry \<and>
   (\<exists>job' d'. select_by_id ''job-1'' (db (fire_timers attempts_503 world_retry)) = Some job' \<and>
      retryCount job' = 0 \<and> status job' = Retry \<and>
      timers (fire_timers attempts_503 world_retry) = [(d', ''job-1'', ''uploads/a.mp3'')]) \<and>
   map (\<lambda>r. (status r, retryCount r, errorMessage r)) (db (fire_timers attempts_503 world_retry)) =
     [(Retry, 0, Some ''Retrying in 6 seconds (attempt 1/3)'')]"
  using retry_count_is_never_incremented
    [where attempts = attempts_503 and j = "''job-1''" and w = world_retry
       and job = "job_A\<lparr> status := Retry, errorMessage := Some ''Retrying in 6 seconds (attempt 1/3)'',
                     lastRetryAt := Some 1000 \<rparr>"
       and d = 5500 and fileKey = "''uploads/a.mp3''"]
    shouldRetryError_503 first_failure_503 four_failures_503
  by (simp add: attempts_503_def world_retry_def select_by_id_def job_A_def MAX_RETRY_ATTEMPTS_def
      string_of_nat.simps)

end
